theory Spec2Isabelle
  imports Main "HOL-Library.Word"
begin

section \<open>Data model of ProcessGroup.hpp\<close>

text \<open>
  The members of the C++ class carry a trailing underscore (\<open>rank_\<close>, \<open>backendType_\<close>),
  which is not a legal end of an Isabelle name; the record fields below write \<open>_m\<close>
  (member) in its place: \<open>rank_m\<close> is \<open>rank_\<close>, and so on.
\<close>

text \<open>The enum \<open>ProcessGroup::BackendType\<close>, in the order of the header.\<close>

datatype BackendType = UNDEFINED | GLOO | NCCL | UCC | MPI | CUSTOM

text \<open>
  \<open>BackendType\<close> is an unscoped enum with no stream operator of its own, so the
  message of a failed check prints its integer value.
\<close>

fun BackendType_str :: "BackendType \<Rightarrow> string" where
  "BackendType_str UNDEFINED = ''0''"
| "BackendType_str GLOO = ''1''"
| "BackendType_str NCCL = ''2''"
| "BackendType_str UCC = ''3''"
| "BackendType_str MPI = ''4''"
| "BackendType_str CUSTOM = ''5''"

text \<open>
  Modelled from the spec: \<open>c10::DeviceType\<close> is declared outside ProcessGroup.hpp. The
  header names the CPU and CUDA kinds; every other device kind is \<open>OtherDeviceType n\<close>.
\<close>

datatype DeviceType = CPU | CUDA | OtherDeviceType nat

text \<open>
  Modelled from the spec: \<open>c10::Device\<close> is declared outside ProcessGroup.hpp. A device
  is a device type with an index; a device built from a device type alone has the
  default index -1 (the comment on \<open>getDeviceTypes\<close>), and \<open>has_index\<close> tells whether
  the index is another one.
\<close>

record Device =
  device_type :: DeviceType
  device_index :: int

definition Device_of :: "DeviceType \<Rightarrow> Device" where
  "Device_of t = \<lparr>device_type = t, device_index = - 1\<rparr>"

definition has_index :: "Device \<Rightarrow> bool" where
  "has_index d = (device_index d \<noteq> - 1)"

text \<open>
  What a call can end with instead of returning: \<open>Error msg\<close> is the \<open>c10::Error\<close> a
  failed \<open>TORCH_CHECK\<close> throws, with the message built from the arguments written at
  the call (empty when the check is given none); \<open>BadOptionalAccess\<close> is the read of
  the value of an empty \<open>c10::optional\<close>; \<open>NullPointerDereference\<close> is a call through
  an \<open>intrusive_ptr\<close> that refers to no backend object.
\<close>

datatype error = Error string | BadOptionalAccess | NullPointerDereference

text \<open>
  Modelled from the spec: the class \<open>Backend\<close> is declared in Backend.hpp, outside
  ProcessGroup.hpp. A backend object has an optional bound device, read by
  \<open>getBoundDeviceId\<close> and stored by \<open>setBoundDeviceId\<close>; the rest of its state
  belongs to the concrete backend and is the field \<open>impl\<close>.
  An \<open>intrusive_ptr<Backend>\<close> is an address; the backend objects live in a store from
  addresses to objects, so that two map entries holding one address share one object.
\<close>

type_synonym addr = nat

record 'i Backend =
  backend_bound_device_id :: "Device option"
  impl :: 'i

type_synonym 'i store = "addr \<rightharpoonup> 'i Backend"

text \<open>
  Modelled from the spec: \<open>Backend::getBoundDeviceId\<close> and \<open>Backend::setBoundDeviceId\<close>
  are defined in Backend.hpp. The first reads the bound device of the object the pointer
  refers to, the second stores its argument there; a call through a pointer that refers
  to no object ends in \<open>NullPointerDereference\<close>.
\<close>

definition Backend_getBoundDeviceId :: "addr \<Rightarrow> 'i store \<Rightarrow> error + Device option" where
  "Backend_getBoundDeviceId a h =
     (case h a of
        None \<Rightarrow> Inl NullPointerDereference
      | Some b \<Rightarrow> Inr (backend_bound_device_id b))"

definition Backend_setBoundDeviceId ::
  "addr \<Rightarrow> Device option \<Rightarrow> 'i store \<Rightarrow> error + 'i store" where
  "Backend_setBoundDeviceId a device h =
     (case h a of
        None \<Rightarrow> Inl NullPointerDereference
      | Some b \<Rightarrow> Inr (h(a \<mapsto> b\<lparr>backend_bound_device_id := device\<rparr>)))"

text \<open>\<open>ProcessGroup::Options\<close>: the timeout in milliseconds and the backend name.\<close>

record Options =
  options_timeout :: int
  options_backend :: string

text \<open>The data members of \<open>ProcessGroup\<close> that the modelled member functions use.\<close>

record ProcessGroup =
  rank_m :: int
  size_m :: int
  options_m :: Options
  backendType_m :: BackendType
  deviceTypes_m :: "DeviceType set"
  deviceTypeToBackendType_m :: "DeviceType \<rightharpoonup> BackendType"
  deviceTypeToBackend_m :: "DeviceType \<rightharpoonup> addr"
  backendTypeToBackend_m :: "BackendType \<rightharpoonup> addr"
  bound_device_id_m :: "Device option"

text \<open>The state a member function runs in: the group and the store of backend objects.\<close>

record 'i world =
  group :: ProcessGroup
  heap :: "'i store"

text \<open>
  Modelled from the spec: the constructor is defined outside ProcessGroup.hpp. It sets
  rank, size and options once; the default backend type, which the missing code derives
  from the backend name, is an argument here. The registry members and the bound device
  have no initialiser in the header, so they start empty.
\<close>

definition ProcessGroup_new :: "int \<Rightarrow> int \<Rightarrow> Options \<Rightarrow> BackendType \<Rightarrow> ProcessGroup" where
  "ProcessGroup_new rank sz options backendType =
     \<lparr>rank_m = rank, size_m = sz, options_m = options, backendType_m = backendType,
      deviceTypes_m = {}, deviceTypeToBackendType_m = Map.empty,
      deviceTypeToBackend_m = Map.empty, backendTypeToBackend_m = Map.empty,
      bound_device_id_m = None\<rparr>"

section \<open>Accessors\<close>

definition getRank :: "ProcessGroup \<Rightarrow> int" where
  "getRank g = rank_m g"

definition getSize :: "ProcessGroup \<Rightarrow> int" where
  "getSize g = size_m g"

definition getBackendName :: "ProcessGroup \<Rightarrow> string" where
  "getBackendName g = options_backend (options_m g)"

definition getBackendType :: "ProcessGroup \<Rightarrow> BackendType" where
  "getBackendType g = backendType_m g"

definition hasBackends :: "ProcessGroup \<Rightarrow> bool" where
  "hasBackends g = (deviceTypeToBackendType_m g \<noteq> Map.empty)"

definition getBoundDeviceId :: "ProcessGroup \<Rightarrow> Device option" where
  "getBoundDeviceId g = bound_device_id_m g"

section \<open>Backend registration and resolution\<close>

text \<open>
  \<open>setBackend\<close>, statement by statement. The result pairs what the call ended with
  (\<open>None\<close> when it returned) with the state it left: the writes made before a failed
  check stay. The reuse branch reads \<open>*backend\<close> without asking \<open>has_value\<close>; the other
  branch asks first. The two sides of the comparison in the check are read from left to
  right.
\<close>

definition setBackend ::
  "DeviceType \<Rightarrow> BackendType \<Rightarrow> addr option \<Rightarrow> 'i world \<Rightarrow> error option \<times> 'i world" where
  "setBackend deviceType backendType backend w =
     (let g1 = (group w)
            \<lparr>deviceTypeToBackendType_m :=
               (deviceTypeToBackendType_m (group w))(deviceType \<mapsto> backendType),
             deviceTypes_m := insert deviceType (deviceTypes_m (group w))\<rparr>
      in case backendTypeToBackend_m g1 backendType of
           Some existingBackend \<Rightarrow>
             (let w2 = w\<lparr>group := g1
                        \<lparr>deviceTypeToBackend_m :=
                           (deviceTypeToBackend_m g1)(deviceType \<mapsto> existingBackend)\<rparr>\<rparr>
              in case Backend_getBoundDeviceId existingBackend (heap w) of
                   Inl e \<Rightarrow> (Some e, w2)
                 | Inr d1 \<Rightarrow>
                     (case backend of
                        None \<Rightarrow> (Some BadOptionalAccess, w2)
                      | Some b \<Rightarrow>
                          (case Backend_getBoundDeviceId b (heap w) of
                             Inl e \<Rightarrow> (Some e, w2)
                           | Inr d2 \<Rightarrow>
                               if d1 = d2 then (None, w2) else (Some (Error []), w2))))
         | None \<Rightarrow>
             (case backend of
                None \<Rightarrow> (None, w\<lparr>group := g1\<rparr>)
              | Some b \<Rightarrow>
                  (let g2 = g1
                         \<lparr>deviceTypeToBackend_m := (deviceTypeToBackend_m g1)(deviceType \<mapsto> b),
                          backendTypeToBackend_m := (backendTypeToBackend_m g1)(backendType \<mapsto> b)\<rparr>
                   in case Backend_setBoundDeviceId b (bound_device_id_m g2) (heap w) of
                        Inl e \<Rightarrow> (Some e, w\<lparr>group := g2\<rparr>)
                      | Inr h' \<Rightarrow> (None, \<lparr>group = g2, heap = h'\<rparr>))))"

definition getDefaultBackend :: "ProcessGroup \<Rightarrow> error + addr" where
  "getDefaultBackend g =
     (case backendTypeToBackend_m g (backendType_m g) of
        None \<Rightarrow>
          Inl (Error (''Could not find the default backend type ''
                 @ BackendType_str (backendType_m g)
                 @ '' for Process Group with name '' @ getBackendName g @ ''.''))
      | Some a \<Rightarrow> Inr a)"

text \<open>The overload \<open>getBackend(BackendType)\<close>.\<close>

definition getBackend_backendType :: "BackendType \<Rightarrow> ProcessGroup \<Rightarrow> error + addr" where
  "getBackend_backendType backendType g =
     (case backendTypeToBackend_m g backendType of
        None \<Rightarrow>
          Inl (Error (''Could not find backend type '' @ BackendType_str backendType @ ''.''))
      | Some a \<Rightarrow> Inr a)"

text \<open>
  Modelled from the spec: the overload \<open>getBackend(DeviceType)\<close> is declared in the
  header and defined outside it. It resolves the device type to its backend type and the
  backend type to its instance, and fails when either lookup finds nothing.
\<close>

definition getBackend_deviceType :: "DeviceType \<Rightarrow> ProcessGroup \<Rightarrow> error + addr" where
  "getBackend_deviceType deviceType g =
     (case deviceTypeToBackendType_m g deviceType of
        None \<Rightarrow> Inl (Error ''not found'')
      | Some backendType \<Rightarrow>
          (case backendTypeToBackend_m g backendType of
             None \<Rightarrow> Inl (Error ''not found'')
           | Some a \<Rightarrow> Inr a))"

definition setBoundDeviceId :: "Device option \<Rightarrow> 'i world \<Rightarrow> error option \<times> 'i world" where
  "setBoundDeviceId device w =
     (case device of
        Some d \<Rightarrow>
          if has_index d
          then (None, w\<lparr>group := (group w)\<lparr>bound_device_id_m := device\<rparr>\<rparr>)
          else (Some (Error ''setBoundDeviceId must have an index''), w)
      | None \<Rightarrow> (None, w\<lparr>group := (group w)\<lparr>bound_device_id_m := device\<rparr>\<rparr>))"

section \<open>Barriers\<close>

text \<open>
  Modelled from the spec: tensors, \<open>BarrierOptions\<close> and the operator dispatcher are
  declared outside ProcessGroup.hpp. A tensor is what \<open>at::empty\<close> was asked for (sizes,
  device, element type); the dispatched operator is an argument \<open>op\<close> of the functions
  that call it.
\<close>

datatype ScalarType = Byte | DefaultDtype

record Tensor =
  tensor_sizes :: "int list"
  tensor_device :: Device
  tensor_dtype :: ScalarType

definition at_empty :: "int list \<Rightarrow> Device \<Rightarrow> ScalarType \<Rightarrow> Tensor" where
  "at_empty sizes dev dtype = \<lparr>tensor_sizes = sizes, tensor_device = dev, tensor_dtype = dtype\<rparr>"

record BarrierOptions =
  device_ids :: "int list"
  barrier_timeout :: int
  device :: "Device option"

definition monitoredBarrier ::
  "(Tensor \<Rightarrow> 'i world \<Rightarrow> int list \<Rightarrow> int \<Rightarrow> bool \<Rightarrow> 'r) \<Rightarrow> BarrierOptions \<Rightarrow> bool \<Rightarrow> 'i world \<Rightarrow> 'r" where
  "monitoredBarrier op opts wait_all_ranks w =
     (let tensor = at_empty [0] (Device_of CPU) DefaultDtype
      in op tensor w (device_ids opts) (barrier_timeout opts) wait_all_ranks)"

text \<open>The buffer \<open>barrier\<close> builds before it dispatches.\<close>

definition barrier_tensor :: "BarrierOptions \<Rightarrow> ProcessGroup \<Rightarrow> Tensor" where
  "barrier_tensor opts g =
     (case device opts of
        Some d \<Rightarrow> at_empty [1] d Byte
      | None \<Rightarrow>
          if backendType_m g = NCCL then at_empty [1] (Device_of CUDA) Byte
          else at_empty [1] (Device_of CPU) Byte)"

definition barrier ::
  "(Tensor \<Rightarrow> 'i world \<Rightarrow> int list \<Rightarrow> int \<Rightarrow> 'r) \<Rightarrow> BarrierOptions \<Rightarrow> 'i world \<Rightarrow> 'r" where
  "barrier op opts w =
     op (barrier_tensor opts (group w)) w (device_ids opts) (barrier_timeout opts)"

section \<open>Sequence numbers\<close>

text \<open>
  The two member functions call a virtual function of the default backend; what a
  concrete backend does there is the argument \<open>backend_op\<close>.
\<close>

definition setSequenceNumberForGroup ::
  "(addr \<Rightarrow> 'i world \<Rightarrow> error option \<times> 'i world) \<Rightarrow> 'i world \<Rightarrow> error option \<times> 'i world" where
  "setSequenceNumberForGroup backend_op w =
     (let backendType = getBackendType (group w)
      in if backendType = GLOO \<or> backendType = NCCL \<or> backendType = UCC
         then (case getDefaultBackend (group w) of
                 Inl e \<Rightarrow> (Some e, w)
               | Inr a \<Rightarrow> backend_op a w)
         else (Some (Error (''ProcessGroup '' @ getBackendName (group w)
                              @ '' does not yet support sequence numbers.'')), w))"

definition getSequenceNumberForGroup ::
  "(addr \<Rightarrow> 'i world \<Rightarrow> error + 64 word) \<Rightarrow> 'i world \<Rightarrow> error + 64 word" where
  "getSequenceNumberForGroup backend_op w =
     (let backendType = getBackendType (group w)
      in if backendType = GLOO \<or> backendType = NCCL \<or> backendType = UCC
         then (case getDefaultBackend (group w) of
                 Inl e \<Rightarrow> Inl e
               | Inr a \<Rightarrow> backend_op a w)
         else Inl (Error (''ProcessGroup '' @ getBackendName (group w)
                            @ '' does not yet support sequence numbers.'')))"

section \<open>Sequences of calls\<close>

text \<open>
  The two member functions of the header that write to the group, as calls; \<open>run\<close>
  makes a list of calls one after the other. A call that ends in an error leaves the
  state it reached, and the next call starts from there.
\<close>

datatype call = SetBackend DeviceType BackendType "addr option" | SetBoundDeviceId "Device option"

fun step :: "call \<Rightarrow> 'i world \<Rightarrow> error option \<times> 'i world" where
  "step (SetBackend deviceType backendType backend) w = setBackend deviceType backendType backend w"
| "step (SetBoundDeviceId dev) w = setBoundDeviceId dev w"

fun run :: "call list \<Rightarrow> 'i world \<Rightarrow> 'i world" where
  "run [] w = w"
| "run (c # cs) w = run cs (snd (step c w))"

text \<open>A call that supplies an instance for the backend type \<open>bt\<close>.\<close>

fun attaches :: "BackendType \<Rightarrow> call \<Rightarrow> bool" where
  "attaches bt (SetBackend deviceType backendType backend) = (backendType = bt \<and> backend \<noteq> None)"
| "attaches bt (SetBoundDeviceId dev) = False"

text \<open>The bound device of the group, when there is one, has a device index.\<close>

definition bound_device_indexed :: "ProcessGroup \<Rightarrow> bool" where
  "bound_device_indexed g =
     (case bound_device_id_m g of None \<Rightarrow> True | Some d \<Rightarrow> has_index d)"

section \<open>Example states\<close>

definition example_backend :: "unit Backend" where
  "example_backend = \<lparr>backend_bound_device_id = None, impl = ()\<rparr>"

text \<open>A new group of two processes, seen from rank 0, and one backend object at address 0.\<close>

definition example_world :: "string \<Rightarrow> BackendType \<Rightarrow> unit world" where
  "example_world name backendType =
     \<lparr>group = ProcessGroup_new 0 2 \<lparr>options_timeout = 1800000, options_backend = name\<rparr> backendType,
      heap = [0 \<mapsto> example_backend]\<rparr>"

text \<open>The same after \<open>setBackend(CPU, GLOO, backend at 0)\<close>.\<close>

definition example_world_cpu_gloo :: "string \<Rightarrow> BackendType \<Rightarrow> unit world" where
  "example_world_cpu_gloo name backendType =
     snd (setBackend CPU GLOO (Some 0) (example_world name backendType))"

definition example_barrier_options :: BarrierOptions where
  "example_barrier_options = \<lparr>device_ids = [], barrier_timeout = - 1, device = None\<rparr>"

text \<open>A dispatched operator that returns the buffer it was called with.\<close>

definition buffer_passed :: "Tensor \<Rightarrow> unit world \<Rightarrow> int list \<Rightarrow> int \<Rightarrow> Tensor" where
  "buffer_passed tensor w ids t = tensor"

text \<open>
  A new group and two backend objects, at addresses 0 and 1, neither bound to a device.
\<close>

definition example_world_two :: "unit world" where
  "example_world_two =
     \<lparr>group = ProcessGroup_new 0 2 \<lparr>options_timeout = 1800000, options_backend = ''gloo''\<rparr> GLOO,
      heap = [0 \<mapsto> example_backend, 1 \<mapsto> example_backend]\<rparr>"

text \<open>The group of \<open>example_world_two\<close> after it was bound to the device cuda:0.\<close>

definition example_world_two_bound :: "unit world" where
  "example_world_two_bound =
     snd (setBoundDeviceId (Some \<lparr>device_type = CUDA, device_index = 0\<rparr>) example_world_two)"

text \<open>
  A concrete backend whose own state is its sequence number: its
  \<open>setSequenceNumberForGroup\<close> stores 7 in the object the pointer refers to, and its
  \<open>getSequenceNumberForGroup\<close> reads the number of that object.
\<close>

definition example_setSequenceNumber ::
  "addr \<Rightarrow> (64 word) world \<Rightarrow> error option \<times> (64 word) world" where
  "example_setSequenceNumber a w =
     (case heap w a of
        None \<Rightarrow> (Some NullPointerDereference, w)
      | Some b \<Rightarrow> (None, w\<lparr>heap := (heap w)(a \<mapsto> b\<lparr>impl := 7\<rparr>)\<rparr>))"

definition example_getSequenceNumber :: "addr \<Rightarrow> (64 word) world \<Rightarrow> error + 64 word" where
  "example_getSequenceNumber a w =
     (case heap w a of
        None \<Rightarrow> Inl NullPointerDereference
      | Some b \<Rightarrow> Inr (impl b))"

text \<open>
  A new group with two such backends, numbered 100 at address 0 and 200 at address 1,
  after \<open>setBackend(CPU, GLOO, backend at 0)\<close> and \<open>setBackend(CUDA, NCCL, backend at 1)\<close>.
\<close>

definition example_world_sequence :: "string \<Rightarrow> BackendType \<Rightarrow> (64 word) world" where
  "example_world_sequence name backendType =
     snd (setBackend CUDA NCCL (Some 1)
           (snd (setBackend CPU GLOO (Some 0)
                  \<lparr>group = ProcessGroup_new 0 2
                             \<lparr>options_timeout = 1800000, options_backend = name\<rparr> backendType,
                   heap = [0 \<mapsto> \<lparr>backend_bound_device_id = None, impl = 100\<rparr>,
                           1 \<mapsto> \<lparr>backend_bound_device_id = None, impl = 200\<rparr>]\<rparr>)))"

section \<open>What the calls leave unchanged\<close>

lemma setBackend_fixed_members:
  "rank_m (group (snd (setBackend dt bt bo w))) = rank_m (group w)"
  "size_m (group (snd (setBackend dt bt bo w))) = size_m (group w)"
  "options_m (group (snd (setBackend dt bt bo w))) = options_m (group w)"
  "backendType_m (group (snd (setBackend dt bt bo w))) = backendType_m (group w)"
  "bound_device_id_m (group (snd (setBackend dt bt bo w))) = bound_device_id_m (group w)"
  by (simp_all add: setBackend_def Let_def split: option.splits sum.splits)

lemma setBoundDeviceId_fixed_members:
  "rank_m (group (snd (setBoundDeviceId dev w))) = rank_m (group w)"
  "size_m (group (snd (setBoundDeviceId dev w))) = size_m (group w)"
  "options_m (group (snd (setBoundDeviceId dev w))) = options_m (group w)"
  "backendType_m (group (snd (setBoundDeviceId dev w))) = backendType_m (group w)"
  "backendTypeToBackend_m (group (snd (setBoundDeviceId dev w))) = backendTypeToBackend_m (group w)"
  by (simp_all add: setBoundDeviceId_def split: option.splits)

lemma step_fixed_members:
  "rank_m (group (snd (step c w))) = rank_m (group w)"
  "size_m (group (snd (step c w))) = size_m (group w)"
  by (cases c; simp add: setBackend_fixed_members setBoundDeviceId_fixed_members)+

lemma run_fixed_members:
  "rank_m (group (run cs w)) = rank_m (group w) \<and> size_m (group (run cs w)) = size_m (group w)"
  by (induction cs arbitrary: w) (simp_all add: step_fixed_members)

lemma setBoundDeviceId_indexed:
  "bound_device_indexed (group w) \<Longrightarrow> bound_device_indexed (group (snd (setBoundDeviceId dev w)))"
  by (simp add: setBoundDeviceId_def bound_device_indexed_def split: option.splits)

lemma step_indexed:
  "bound_device_indexed (group w) \<Longrightarrow> bound_device_indexed (group (snd (step c w)))"
proof (cases c)
  case (SetBackend dt bt bo)
  assume "bound_device_indexed (group w)"
  with SetBackend show ?thesis
    by (simp add: bound_device_indexed_def setBackend_fixed_members)
next
  case (SetBoundDeviceId dev)
  assume "bound_device_indexed (group w)"
  with SetBoundDeviceId show ?thesis
    by (simp add: setBoundDeviceId_indexed)
qed

lemma run_indexed:
  "bound_device_indexed (group w) \<Longrightarrow> bound_device_indexed (group (run cs w))"
  by (induction cs arbitrary: w) (simp_all add: step_indexed)

section \<open>What \<open>setBackend\<close> writes\<close>

lemma setBackend_backendTypeToBackend:
  "backendTypeToBackend_m (group (snd (setBackend dt bt bo w))) bt' =
     (if bt' = bt \<and> backendTypeToBackend_m (group w) bt = None then bo
      else backendTypeToBackend_m (group w) bt')"
  by (simp add: setBackend_def Let_def split: option.splits sum.splits)

lemma setBackend_deviceTypeToBackendType:
  "deviceTypeToBackendType_m (group (snd (setBackend dt bt bo w))) =
     (deviceTypeToBackendType_m (group w))(dt \<mapsto> bt)"
  by (simp add: setBackend_def Let_def split: option.splits sum.splits)

lemma setBackend_deviceTypes:
  "deviceTypes_m (group (snd (setBackend dt bt bo w))) = insert dt (deviceTypes_m (group w))"
  by (simp add: setBackend_def Let_def split: option.splits sum.splits)

lemma setBackend_serves_registered:
  "backendTypeToBackend_m (group (snd (setBackend dt bt bo w))) bt = Some a \<Longrightarrow>
   deviceTypeToBackend_m (group (snd (setBackend dt bt bo w))) dt = Some a"
  by (auto simp: setBackend_def Let_def split: option.splits sum.splits if_splits)

lemma setBackend_deviceTypeToBackend_other:
  "dt' \<noteq> dt \<Longrightarrow>
   deviceTypeToBackend_m (group (snd (setBackend dt bt bo w))) dt' =
   deviceTypeToBackend_m (group w) dt'"
  by (simp add: setBackend_def Let_def split: option.splits sum.splits)

lemma setBackend_registers_supplied:
  "\<exists>a. backendTypeToBackend_m (group (snd (setBackend dt bt (Some b) w))) bt = Some a"
  by (simp add: setBackend_backendTypeToBackend)

lemma step_backendTypeToBackend_kept:
  "backendTypeToBackend_m (group w) bt = Some a \<Longrightarrow>
   backendTypeToBackend_m (group (snd (step c w))) bt = Some a"
  by (cases c) (auto simp: setBackend_backendTypeToBackend setBoundDeviceId_fixed_members)

lemma run_backendTypeToBackend_kept:
  "backendTypeToBackend_m (group w) bt = Some a \<Longrightarrow>
   backendTypeToBackend_m (group (run cs w)) bt = Some a"
  by (induction cs arbitrary: w) (simp_all add: step_backendTypeToBackend_kept)

lemma step_not_attached:
  "backendTypeToBackend_m (group w) bt = None \<Longrightarrow> \<not> attaches bt c \<Longrightarrow>
   backendTypeToBackend_m (group (snd (step c w))) bt = None"
  by (cases c) (auto simp: setBackend_backendTypeToBackend setBoundDeviceId_fixed_members)

lemma run_not_attached:
  "backendTypeToBackend_m (group w) bt = None \<Longrightarrow> \<forall>c \<in> set cs. \<not> attaches bt c \<Longrightarrow>
   backendTypeToBackend_m (group (run cs w)) bt = None"
  by (induction cs arbitrary: w) (simp_all add: step_not_attached)

text \<open>
  The reuse branch with no instance supplied: whenever the backend type is registered
  with a live backend object, the call reads the value of the empty optional.
\<close>

lemma setBackend_reuse_none:
  "backendTypeToBackend_m (group w) bt = Some a \<Longrightarrow> heap w a = Some be \<Longrightarrow>
   fst (setBackend dt bt None w) = Some BadOptionalAccess"
  by (simp add: setBackend_def Let_def Backend_getBoundDeviceId_def)

text \<open>
  A call that fails the bound-device check: the group is bound to cuda:0, the backend
  at 0 is registered for GLOO and takes that device, and the second instance, bound to
  nothing, is then offered for GLOO on another device type. The call throws, and the
  entries it wrote before the check are there.
\<close>

lemma setBackend_failed_check_example:
  "fst (setBackend CPU GLOO (Some 0) example_world_two_bound) = None
   \<and> fst (setBackend CUDA GLOO (Some 1) (snd (setBackend CPU GLOO (Some 0) example_world_two_bound)))
       = Some (Error [])
   \<and> deviceTypeToBackendType_m
        (group (snd (setBackend CUDA GLOO (Some 1)
                      (snd (setBackend CPU GLOO (Some 0) example_world_two_bound))))) CUDA
       = Some GLOO
   \<and> CUDA \<in> deviceTypes_m
        (group (snd (setBackend CUDA GLOO (Some 1)
                      (snd (setBackend CPU GLOO (Some 0) example_world_two_bound)))))
   \<and> deviceTypeToBackend_m
        (group (snd (setBackend CUDA GLOO (Some 1)
                      (snd (setBackend CPU GLOO (Some 0) example_world_two_bound))))) CUDA
       = Some 0"
  by (simp add: example_world_two_bound_def example_world_two_def ProcessGroup_new_def
      example_backend_def setBoundDeviceId_def has_index_def setBackend_def Let_def
      Backend_setBoundDeviceId_def Backend_getBoundDeviceId_def)

lemma barrier_nccl_buffer:
  "device opts = None \<Longrightarrow> backendType_m (group w) = NCCL \<Longrightarrow>
   barrier op opts w = op (at_empty [1] (Device_of CUDA) Byte) w (device_ids opts) (barrier_timeout opts)"
  by (simp add: barrier_def barrier_tensor_def)

lemma barrier_explicit_device_buffer:
  "device opts = Some d \<Longrightarrow>
   barrier op opts w = op (at_empty [1] d Byte) w (device_ids opts) (barrier_timeout opts)"
  by (simp add: barrier_def barrier_tensor_def)

text \<open>The registry and the store of \<open>example_world_sequence\<close>.\<close>

lemma example_world_sequence_state:
  "backendType_m (group (example_world_sequence name bt)) = bt"
  "options_backend (options_m (group (example_world_sequence name bt))) = name"
  "backendTypeToBackend_m (group (example_world_sequence name bt)) GLOO = Some 0"
  "backendTypeToBackend_m (group (example_world_sequence name bt)) NCCL = Some 1"
  "backendTypeToBackend_m (group (example_world_sequence name bt)) UCC = None"
  "heap (example_world_sequence name bt) 0 = Some \<lparr>backend_bound_device_id = None, impl = 100\<rparr>"
  "heap (example_world_sequence name bt) (Suc 0)
     = Some \<lparr>backend_bound_device_id = None, impl = 200\<rparr>"
  by (simp_all add: example_world_sequence_def ProcessGroup_new_def setBackend_def Let_def
      Backend_setBoundDeviceId_def)

section \<open>Monitored barrier\<close>

text \<open>
  C10. \<open>monitoredBarrier\<close> hands the dispatched operator an empty buffer on the CPU
  device (device type CPU, default index), whatever the group's default backend type,
  its registered backends and the device ids of the options are; the options only
  supply the device ids and the timeout that are passed along.
\<close>

theorem monitoredBarrier_cpu_buffer:
  "monitoredBarrier op opts wait_all_ranks w =
     op \<lparr>tensor_sizes = [0], tensor_device = \<lparr>device_type = CPU, device_index = - 1\<rparr>,
         tensor_dtype = DefaultDtype\<rparr>
        w (device_ids opts) (barrier_timeout opts) wait_all_ranks"
  by (simp add: monitoredBarrier_def at_empty_def Device_of_def)

section \<open>Rank and size\<close>

text \<open>
  C7. For every rank and size with \<open>0 \<le> rank < size\<close>, a newly constructed group
  reports exactly that rank and that size, and it still reports them after any sequence
  of the calls that write to the group (\<open>setBackend\<close> and \<open>setBoundDeviceId\<close>, whether
  they return or fail), started with any store of backend objects.
\<close>

theorem rank_size_fixed:
  assumes "0 \<le> rank" and "rank < sz"
  shows "getRank (ProcessGroup_new rank sz options bt) = rank
       \<and> getSize (ProcessGroup_new rank sz options bt) = sz
       \<and> getRank (group (run cs \<lparr>group = ProcessGroup_new rank sz options bt, heap = h\<rparr>)) = rank
       \<and> getSize (group (run cs \<lparr>group = ProcessGroup_new rank sz options bt, heap = h\<rparr>)) = sz"
  by (simp add: getRank_def getSize_def run_fixed_members ProcessGroup_new_def)

theorem rank_size_fixed_witness:
  "getRank (ProcessGroup_new 0 2 \<lparr>options_timeout = 1800000, options_backend = ''gloo''\<rparr> GLOO) = 0
   \<and> getSize (group (run [SetBackend CPU GLOO (Some 0), SetBoundDeviceId (Some (Device_of CUDA)),
                           SetBackend CUDA GLOO None]
                (example_world ''gloo'' GLOO))) = 2"
  using rank_size_fixed [of 0 2 "\<lparr>options_timeout = 1800000, options_backend = ''gloo''\<rparr>" GLOO
      "[SetBackend CPU GLOO (Some 0), SetBoundDeviceId (Some (Device_of CUDA)), SetBackend CUDA GLOO None]"
      "[0 \<mapsto> example_backend]"]
  by (simp add: example_world_def)

section \<open>The bound device\<close>

text \<open>
  C9. \<open>setBoundDeviceId\<close> fails, with the message "setBoundDeviceId must have an index"
  and without changing the state, when it is given a device that has no device index.
  When it returns, the group's bound device is the argument, and a device stored so has
  an index. Hence a group whose bound device is absent or indexed stays so under every
  sequence of \<open>setBackend\<close> and \<open>setBoundDeviceId\<close> calls.
\<close>

theorem setBoundDeviceId_requires_index:
  "(\<not> has_index d \<longrightarrow>
      setBoundDeviceId (Some d) w = (Some (Error ''setBoundDeviceId must have an index''), w))
   \<and> (setBoundDeviceId dev w = (None, w') \<longrightarrow>
        bound_device_id_m (group w') = dev \<and> (\<forall>d'. dev = Some d' \<longrightarrow> has_index d'))
   \<and> (bound_device_indexed (group w) \<longrightarrow> bound_device_indexed (group (run cs w)))"
proof (intro conjI impI)
  assume "\<not> has_index d"
  then show "setBoundDeviceId (Some d) w = (Some (Error ''setBoundDeviceId must have an index''), w)"
    by (simp add: setBoundDeviceId_def)
next
  assume r: "setBoundDeviceId dev w = (None, w')"
  then show "bound_device_id_m (group w') = dev"
    by (auto simp: setBoundDeviceId_def split: option.splits if_splits)
  from r show "\<forall>d'. dev = Some d' \<longrightarrow> has_index d'"
    by (auto simp: setBoundDeviceId_def split: option.splits if_splits)
next
  assume "bound_device_indexed (group w)"
  then show "bound_device_indexed (group (run cs w))"
    by (rule run_indexed)
qed

theorem setBoundDeviceId_requires_index_witness:
  "setBoundDeviceId (Some (Device_of CUDA)) (example_world ''nccl'' NCCL)
     = (Some (Error ''setBoundDeviceId must have an index''), example_world ''nccl'' NCCL)
   \<and> bound_device_id_m (group (snd (setBoundDeviceId (Some \<lparr>device_type = CUDA, device_index = 0\<rparr>)
                                        (example_world ''nccl'' NCCL))))
     = Some \<lparr>device_type = CUDA, device_index = 0\<rparr>
   \<and> bound_device_indexed (group (run [SetBoundDeviceId (Some (Device_of CUDA)),
                                        SetBoundDeviceId (Some \<lparr>device_type = CUDA, device_index = 0\<rparr>),
                                        SetBackend CUDA NCCL (Some 0)]
                                   (example_world ''nccl'' NCCL)))"
  using setBoundDeviceId_requires_index [of "Device_of CUDA" "example_world ''nccl'' NCCL"
      "Some \<lparr>device_type = CUDA, device_index = 0\<rparr>"
      "snd (setBoundDeviceId (Some \<lparr>device_type = CUDA, device_index = 0\<rparr>) (example_world ''nccl'' NCCL))"
      "[SetBoundDeviceId (Some (Device_of CUDA)),
        SetBoundDeviceId (Some \<lparr>device_type = CUDA, device_index = 0\<rparr>),
        SetBackend CUDA NCCL (Some 0)]"]
  by (simp add: has_index_def Device_of_def setBoundDeviceId_def bound_device_indexed_def
      example_world_def ProcessGroup_new_def)

section \<open>Sequence numbers of the group\<close>

text \<open>
  C3. When the default backend type of the group is none of GLOO, NCCL and UCC, both
  \<open>setSequenceNumberForGroup\<close> and \<open>getSequenceNumberForGroup\<close> end in the error
  "ProcessGroup <backend name> does not yet support sequence numbers." (the setter
  leaves the state as it was, the getter yields no number). When it is one of the
  three, both go to the backend that the registry holds under the group's own default
  backend type: when the registry holds none there, both end in the error "Could not
  find the default backend type <n> for Process Group with name <backend name>." and
  the state is as it was; when it holds the instance \<open>a\<close>, each gives exactly what
  the backend's own function gives when called on \<open>a\<close>, and on no other instance.
\<close>

theorem sequence_number_support:
  "(getBackendType (group w) \<notin> {GLOO, NCCL, UCC} \<longrightarrow>
      setSequenceNumberForGroup set_op w =
        (Some (Error (''ProcessGroup '' @ getBackendName (group w)
                        @ '' does not yet support sequence numbers.'')), w)
      \<and> getSequenceNumberForGroup get_op w =
        Inl (Error (''ProcessGroup '' @ getBackendName (group w)
                      @ '' does not yet support sequence numbers.'')))
   \<and> (getBackendType (group w) \<in> {GLOO, NCCL, UCC} \<longrightarrow>
      setSequenceNumberForGroup set_op w =
        (case getDefaultBackend (group w) of Inl e \<Rightarrow> (Some e, w) | Inr a \<Rightarrow> set_op a w)
      \<and> getSequenceNumberForGroup get_op w =
        (case getDefaultBackend (group w) of Inl e \<Rightarrow> Inl e | Inr a \<Rightarrow> get_op a w))
   \<and> (getBackendType (group w) \<in> {GLOO, NCCL, UCC}
        \<and> backendTypeToBackend_m (group w) (backendType_m (group w)) = None \<longrightarrow>
      setSequenceNumberForGroup set_op w =
        (Some (Error (''Could not find the default backend type ''
                        @ BackendType_str (backendType_m (group w))
                        @ '' for Process Group with name ''
                        @ options_backend (options_m (group w)) @ ''.'')), w)
      \<and> getSequenceNumberForGroup get_op w =
        Inl (Error (''Could not find the default backend type ''
                      @ BackendType_str (backendType_m (group w))
                      @ '' for Process Group with name ''
                      @ options_backend (options_m (group w)) @ ''.'')))
   \<and> (getBackendType (group w) \<in> {GLOO, NCCL, UCC}
        \<and> backendTypeToBackend_m (group w) (backendType_m (group w)) = Some a \<longrightarrow>
      setSequenceNumberForGroup set_op w = set_op a w
      \<and> getSequenceNumberForGroup get_op w = get_op a w)"
  by (simp add: setSequenceNumberForGroup_def getSequenceNumberForGroup_def Let_def
      getDefaultBackend_def getBackendName_def)

theorem sequence_number_support_witness:
  "setSequenceNumberForGroup example_setSequenceNumber (example_world_sequence ''mpi'' MPI)
     = (Some (Error ''ProcessGroup mpi does not yet support sequence numbers.''),
        example_world_sequence ''mpi'' MPI)
   \<and> getSequenceNumberForGroup example_getSequenceNumber (example_world_sequence ''mpi'' MPI)
     = Inl (Error ''ProcessGroup mpi does not yet support sequence numbers.'')
   \<and> setSequenceNumberForGroup example_setSequenceNumber (example_world_sequence ''ucc'' UCC)
     = (Some (Error ''Could not find the default backend type 3 for Process Group with name ucc.''),
        example_world_sequence ''ucc'' UCC)
   \<and> getSequenceNumberForGroup example_getSequenceNumber (example_world_sequence ''ucc'' UCC)
     = Inl (Error ''Could not find the default backend type 3 for Process Group with name ucc.'')
   \<and> getSequenceNumberForGroup example_getSequenceNumber (example_world_sequence ''gloo'' GLOO)
     = Inr 100
   \<and> getSequenceNumberForGroup example_getSequenceNumber (example_world_sequence ''nccl'' NCCL)
     = Inr 200
   \<and> fst (setSequenceNumberForGroup example_setSequenceNumber (example_world_sequence ''nccl'' NCCL))
     = None
   \<and> heap (snd (setSequenceNumberForGroup example_setSequenceNumber
                   (example_world_sequence ''nccl'' NCCL))) 1
     = Some \<lparr>backend_bound_device_id = None, impl = 7\<rparr>
   \<and> heap (snd (setSequenceNumberForGroup example_setSequenceNumber
                   (example_world_sequence ''nccl'' NCCL))) 0
     = Some \<lparr>backend_bound_device_id = None, impl = 100\<rparr>"
proof -
  have supported:
    "getBackendType (group (example_world_sequence ''mpi'' MPI)) \<notin> {GLOO, NCCL, UCC}"
    "getBackendType (group (example_world_sequence ''ucc'' UCC)) \<in> {GLOO, NCCL, UCC}"
    "getBackendType (group (example_world_sequence ''gloo'' GLOO)) \<in> {GLOO, NCCL, UCC}"
    "getBackendType (group (example_world_sequence ''nccl'' NCCL)) \<in> {GLOO, NCCL, UCC}"
    by (simp_all add: getBackendType_def example_world_sequence_state)
  have registered:
    "backendTypeToBackend_m (group (example_world_sequence ''ucc'' UCC))
       (backendType_m (group (example_world_sequence ''ucc'' UCC))) = None"
    "backendTypeToBackend_m (group (example_world_sequence ''gloo'' GLOO))
       (backendType_m (group (example_world_sequence ''gloo'' GLOO))) = Some 0"
    "backendTypeToBackend_m (group (example_world_sequence ''nccl'' NCCL))
       (backendType_m (group (example_world_sequence ''nccl'' NCCL))) = Some 1"
    by (simp_all add: example_world_sequence_state)
  have mpi:
    "setSequenceNumberForGroup example_setSequenceNumber (example_world_sequence ''mpi'' MPI)
       = (Some (Error (''ProcessGroup '' @ getBackendName (group (example_world_sequence ''mpi'' MPI))
                         @ '' does not yet support sequence numbers.'')),
          example_world_sequence ''mpi'' MPI)
     \<and> getSequenceNumberForGroup example_getSequenceNumber (example_world_sequence ''mpi'' MPI)
       = Inl (Error (''ProcessGroup '' @ getBackendName (group (example_world_sequence ''mpi'' MPI))
                       @ '' does not yet support sequence numbers.''))"
    using sequence_number_support [of "example_world_sequence ''mpi'' MPI"
        example_setSequenceNumber example_getSequenceNumber 0] supported(1)
    by blast
  have ucc:
    "setSequenceNumberForGroup example_setSequenceNumber (example_world_sequence ''ucc'' UCC)
       = (Some (Error (''Could not find the default backend type ''
                         @ BackendType_str (backendType_m (group (example_world_sequence ''ucc'' UCC)))
                         @ '' for Process Group with name ''
                         @ options_backend (options_m (group (example_world_sequence ''ucc'' UCC)))
                         @ ''.'')),
          example_world_sequence ''ucc'' UCC)
     \<and> getSequenceNumberForGroup example_getSequenceNumber (example_world_sequence ''ucc'' UCC)
       = Inl (Error (''Could not find the default backend type ''
                       @ BackendType_str (backendType_m (group (example_world_sequence ''ucc'' UCC)))
                       @ '' for Process Group with name ''
                       @ options_backend (options_m (group (example_world_sequence ''ucc'' UCC)))
                       @ ''.''))"
    using sequence_number_support [of "example_world_sequence ''ucc'' UCC"
        example_setSequenceNumber example_getSequenceNumber 0] supported(2) registered(1)
    by blast
  have gloo:
    "getSequenceNumberForGroup example_getSequenceNumber (example_world_sequence ''gloo'' GLOO)
       = example_getSequenceNumber 0 (example_world_sequence ''gloo'' GLOO)"
    using sequence_number_support [of "example_world_sequence ''gloo'' GLOO"
        example_setSequenceNumber example_getSequenceNumber 0] supported(3) registered(2)
    by blast
  have nccl:
    "setSequenceNumberForGroup example_setSequenceNumber (example_world_sequence ''nccl'' NCCL)
       = example_setSequenceNumber 1 (example_world_sequence ''nccl'' NCCL)
     \<and> getSequenceNumberForGroup example_getSequenceNumber (example_world_sequence ''nccl'' NCCL)
       = example_getSequenceNumber 1 (example_world_sequence ''nccl'' NCCL)"
    using sequence_number_support [of "example_world_sequence ''nccl'' NCCL"
        example_setSequenceNumber example_getSequenceNumber 1] supported(4) registered(3)
    by blast
  show ?thesis
    by (simp add: mpi ucc gloo nccl getBackendName_def example_world_sequence_state
        example_setSequenceNumber_def example_getSequenceNumber_def)
qed

section \<open>Registering backends\<close>

text \<open>
  C6. Every call of \<open>setBackend(deviceType, backendType, backend)\<close> leaves
  \<open>deviceType\<close> mapped to \<open>backendType\<close> in the map from device types to backend
  types, and \<open>deviceType\<close> in the set of device types, in the state the call ends in:
  whichever branch it takes, and also when it ends in an error (the failed bound-device
  check included), since both writes come first and nothing undoes them.
\<close>

theorem setBackend_always_records:
  "deviceTypeToBackendType_m (group (snd (setBackend deviceType backendType backend w))) deviceType
     = Some backendType
   \<and> deviceType \<in> deviceTypes_m (group (snd (setBackend deviceType backendType backend w)))"
  by (simp add: setBackend_deviceTypeToBackendType setBackend_deviceTypes)

text \<open>
  C8. When \<open>setBackend\<close> is called with a backend type that has no registered
  instance and with a pointer to a live backend object, the call returns, and the state
  it leaves has that object under the device type in the map from device types to
  backends and under the backend type in the map from backend types to backends, the
  two recordings of C6, and the object's bound device set to the group's bound device
  (to none when the group has none). Nothing else changes.
\<close>

theorem setBackend_registers_new_instance:
  assumes "backendTypeToBackend_m (group w) bt = None" and "heap w b = Some be"
  shows "setBackend dt bt (Some b) w =
     (None,
      \<lparr>group = (group w)
          \<lparr>deviceTypeToBackendType_m := (deviceTypeToBackendType_m (group w))(dt \<mapsto> bt),
           deviceTypes_m := insert dt (deviceTypes_m (group w)),
           deviceTypeToBackend_m := (deviceTypeToBackend_m (group w))(dt \<mapsto> b),
           backendTypeToBackend_m := (backendTypeToBackend_m (group w))(bt \<mapsto> b)\<rparr>,
       heap = (heap w)(b \<mapsto> be\<lparr>backend_bound_device_id := bound_device_id_m (group w)\<rparr>)\<rparr>)"
  using assms by (simp add: setBackend_def Let_def Backend_setBoundDeviceId_def)

theorem setBackend_registers_new_instance_witness:
  "backendTypeToBackend_m (group example_world_two_bound) NCCL = None
   \<and> heap example_world_two_bound 1 = Some example_backend
   \<and> fst (setBackend CUDA NCCL (Some 1) example_world_two_bound) = None
   \<and> deviceTypeToBackend_m (group (snd (setBackend CUDA NCCL (Some 1) example_world_two_bound))) CUDA
       = Some 1
   \<and> backendTypeToBackend_m (group (snd (setBackend CUDA NCCL (Some 1) example_world_two_bound))) NCCL
       = Some 1
   \<and> heap (snd (setBackend CUDA NCCL (Some 1) example_world_two_bound)) 1
       = Some \<lparr>backend_bound_device_id = Some \<lparr>device_type = CUDA, device_index = 0\<rparr>, impl = ()\<rparr>"
proof -
  have r: "backendTypeToBackend_m (group example_world_two_bound) NCCL = None"
    by (simp add: example_world_two_bound_def example_world_two_def setBoundDeviceId_def
        has_index_def ProcessGroup_new_def)
  have l: "heap example_world_two_bound 1 = Some example_backend"
    by (simp add: example_world_two_bound_def example_world_two_def setBoundDeviceId_def
        has_index_def)
  have b: "bound_device_id_m (group example_world_two_bound)
             = Some \<lparr>device_type = CUDA, device_index = 0\<rparr>"
    by (simp add: example_world_two_bound_def example_world_two_def setBoundDeviceId_def
        has_index_def)
  show ?thesis
    using r l b setBackend_registers_new_instance [OF r l, of CUDA]
    by (simp add: example_backend_def)
qed

text \<open>
  C4. After \<open>setBackend(dt1, B, b1)\<close> and then \<open>setBackend(dt2, B, b2)\<close>, for
  distinct device types and two supplied instances, both device types resolve to one
  and the same backend instance: \<open>getBackend(dt1)\<close> and \<open>getBackend(dt2)\<close> return it,
  the map from device types to backends holds it under both, and it is the instance
  registered for \<open>B\<close>. This is so in the state the two calls leave whether or not the
  bound-device check of a call passes. And an instance registered for a backend type is
  never replaced: under every sequence of \<open>setBackend\<close> and \<open>setBoundDeviceId\<close> calls the
  backend type keeps the instance it has, so a backend type has at most one instance
  for the whole life of the group.
\<close>

theorem setBackend_same_instance:
  assumes "dt1 \<noteq> dt2"
    and "setBackend dt1 B (Some b1) w = (r1, w1)"
    and "setBackend dt2 B (Some b2) w1 = (r2, w2)"
  shows "(\<exists>a. getBackend_deviceType dt1 (group w2) = Inr a
            \<and> getBackend_deviceType dt2 (group w2) = Inr a
            \<and> deviceTypeToBackend_m (group w2) dt1 = Some a
            \<and> deviceTypeToBackend_m (group w2) dt2 = Some a
            \<and> getBackend_backendType B (group w2) = Inr a)
       \<and> (\<forall>bt a. backendTypeToBackend_m (group w) bt = Some a \<longrightarrow>
              backendTypeToBackend_m (group (run cs w)) bt = Some a)"
proof (intro conjI allI impI)
  have w1: "w1 = snd (setBackend dt1 B (Some b1) w)" using assms(2) by simp
  have w2: "w2 = snd (setBackend dt2 B (Some b2) w1)" using assms(3) by simp
  obtain a where a: "backendTypeToBackend_m (group w1) B = Some a"
    using setBackend_registers_supplied [of dt1 B b1 w] w1 by auto
  have a2: "backendTypeToBackend_m (group w2) B = Some a"
    using a w2 by (simp add: setBackend_backendTypeToBackend)
  have d1: "deviceTypeToBackend_m (group w1) dt1 = Some a"
    using a w1 setBackend_serves_registered [of dt1 B "Some b1" w a] by simp
  have d1': "deviceTypeToBackend_m (group w2) dt1 = Some a"
    using d1 w2 assms(1) by (simp add: setBackend_deviceTypeToBackend_other)
  have d2: "deviceTypeToBackend_m (group w2) dt2 = Some a"
    using a2 w2 setBackend_serves_registered [of dt2 B "Some b2" w1 a] by simp
  have t1: "deviceTypeToBackendType_m (group w2) dt1 = Some B"
    using w1 w2 assms(1) by (simp add: setBackend_deviceTypeToBackendType)
  have t2: "deviceTypeToBackendType_m (group w2) dt2 = Some B"
    using w2 by (simp add: setBackend_deviceTypeToBackendType)
  show "\<exists>a. getBackend_deviceType dt1 (group w2) = Inr a
            \<and> getBackend_deviceType dt2 (group w2) = Inr a
            \<and> deviceTypeToBackend_m (group w2) dt1 = Some a
            \<and> deviceTypeToBackend_m (group w2) dt2 = Some a
            \<and> getBackend_backendType B (group w2) = Inr a"
    using a2 d1' d2 t1 t2
    by (simp add: getBackend_deviceType_def getBackend_backendType_def)
next
  fix bt a
  assume "backendTypeToBackend_m (group w) bt = Some a"
  then show "backendTypeToBackend_m (group (run cs w)) bt = Some a"
    by (rule run_backendTypeToBackend_kept)
qed

theorem setBackend_same_instance_witness:
  "CPU \<noteq> CUDA
   \<and> fst (setBackend CPU GLOO (Some 0) example_world_two) = None
   \<and> fst (setBackend CUDA GLOO (Some 1) (snd (setBackend CPU GLOO (Some 0) example_world_two))) = None
   \<and> getBackend_deviceType CPU
        (group (snd (setBackend CUDA GLOO (Some 1) (snd (setBackend CPU GLOO (Some 0) example_world_two)))))
       = Inr 0
   \<and> getBackend_deviceType CUDA
        (group (snd (setBackend CUDA GLOO (Some 1) (snd (setBackend CPU GLOO (Some 0) example_world_two)))))
       = Inr 0
   \<and> backendTypeToBackend_m (group (example_world_cpu_gloo ''gloo'' GLOO)) GLOO = Some 0
   \<and> backendTypeToBackend_m
        (group (run [SetBackend CUDA GLOO (Some 0), SetBackend CPU GLOO None]
                  (example_world_cpu_gloo ''gloo'' GLOO))) GLOO = Some 0"
proof -
  have f1: "fst (setBackend CPU GLOO (Some 0) example_world_two) = None"
    by (simp add: example_world_two_def ProcessGroup_new_def example_backend_def setBackend_def
        Let_def Backend_setBoundDeviceId_def)
  have f2: "fst (setBackend CUDA GLOO (Some 1) (snd (setBackend CPU GLOO (Some 0) example_world_two)))
              = None"
    by (simp add: example_world_two_def ProcessGroup_new_def example_backend_def setBackend_def
        Let_def Backend_setBoundDeviceId_def Backend_getBoundDeviceId_def)
  have c1: "setBackend CPU GLOO (Some 0) example_world_two
              = (None, snd (setBackend CPU GLOO (Some 0) example_world_two))"
    using f1 by (simp add: prod_eq_iff)
  have c2: "setBackend CUDA GLOO (Some 1) (snd (setBackend CPU GLOO (Some 0) example_world_two))
              = (None, snd (setBackend CUDA GLOO (Some 1)
                              (snd (setBackend CPU GLOO (Some 0) example_world_two))))"
    using f2 by (simp add: prod_eq_iff)
  have r: "backendTypeToBackend_m (group (example_world_cpu_gloo ''gloo'' GLOO)) GLOO = Some 0"
    by (simp add: example_world_cpu_gloo_def example_world_def ProcessGroup_new_def
        example_backend_def setBackend_def Let_def Backend_setBoundDeviceId_def)
  have d: "CPU \<noteq> CUDA" by simp
  have g: "getBackend_backendType GLOO
             (group (snd (setBackend CUDA GLOO (Some 1)
                           (snd (setBackend CPU GLOO (Some 0) example_world_two))))) = Inr 0"
    by (simp add: getBackend_backendType_def example_world_two_def ProcessGroup_new_def
        example_backend_def setBackend_def Let_def Backend_setBoundDeviceId_def
        Backend_getBoundDeviceId_def)
  from setBackend_same_instance [OF d c1 c2] g
  have same: "getBackend_deviceType CPU
        (group (snd (setBackend CUDA GLOO (Some 1) (snd (setBackend CPU GLOO (Some 0) example_world_two)))))
       = Inr 0
     \<and> getBackend_deviceType CUDA
        (group (snd (setBackend CUDA GLOO (Some 1) (snd (setBackend CPU GLOO (Some 0) example_world_two)))))
       = Inr 0"
    by auto
  have kept: "backendTypeToBackend_m
        (group (run [SetBackend CUDA GLOO (Some 0), SetBackend CPU GLOO None]
                  (example_world_cpu_gloo ''gloo'' GLOO))) GLOO = Some 0"
    using setBackend_same_instance [of CUDA "OtherDeviceType 0" GLOO 0
        "example_world_cpu_gloo ''gloo'' GLOO"
        "fst (setBackend CUDA GLOO (Some 0) (example_world_cpu_gloo ''gloo'' GLOO))"
        "snd (setBackend CUDA GLOO (Some 0) (example_world_cpu_gloo ''gloo'' GLOO))" 0
        "fst (setBackend (OtherDeviceType 0) GLOO (Some 0)
               (snd (setBackend CUDA GLOO (Some 0) (example_world_cpu_gloo ''gloo'' GLOO))))"
        "snd (setBackend (OtherDeviceType 0) GLOO (Some 0)
               (snd (setBackend CUDA GLOO (Some 0) (example_world_cpu_gloo ''gloo'' GLOO))))"
        "[SetBackend CUDA GLOO (Some 0), SetBackend CPU GLOO None]"] r
    by simp
  from d f1 f2 same r kept show ?thesis by blast
qed

text \<open>
  C1. The scenario of the claim, run on the code: a new group, \<open>setBackend(CPU, GLOO, b)\<close>
  with a live backend object \<open>b\<close>, which returns, and then \<open>setBackend(CUDA, GLOO, none)\<close>.
  The second call takes the reuse branch, and there it reads the value of the empty
  optional to compare bound devices: it ends in that read of an absent value instead of
  returning. (The entry of CUDA for the existing instance was written just before.)
\<close>

theorem setBackend_reuse_reads_absent_instance:
  "fst (setBackend CPU GLOO (Some 0) (example_world ''gloo'' GLOO)) = None
   \<and> fst (setBackend CUDA GLOO None (snd (setBackend CPU GLOO (Some 0) (example_world ''gloo'' GLOO))))
       = Some BadOptionalAccess"
  by (simp add: example_world_def ProcessGroup_new_def example_backend_def setBackend_def Let_def
      Backend_setBoundDeviceId_def Backend_getBoundDeviceId_def)

section \<open>Looking backends up\<close>

text \<open>
  C5. \<open>getBackend(backendType)\<close> fails with the error "Could not find backend type
  <n>." when the backend type has no registered instance, and returns the registered
  instance when it has one. \<open>getDefaultBackend()\<close> fails with the error "Could not find
  the default backend type <n> for Process Group with name <backend name>." when the
  group's own default backend type has no registered instance, and returns the
  registered instance when it has one. A backend type that is not registered, and for
  which no later \<open>setBackend\<close> call supplies an instance, is still not registered after
  any sequence of calls, so \<open>getBackend\<close> fails for it then.
\<close>

theorem getBackend_found_or_error:
  "(backendTypeToBackend_m g bt = None \<longrightarrow>
      getBackend_backendType bt g
        = Inl (Error (''Could not find backend type '' @ BackendType_str bt @ ''.'')))
   \<and> (backendTypeToBackend_m g bt = Some a \<longrightarrow> getBackend_backendType bt g = Inr a)
   \<and> (backendTypeToBackend_m g (getBackendType g) = None \<longrightarrow>
        getDefaultBackend g
          = Inl (Error (''Could not find the default backend type ''
                          @ BackendType_str (getBackendType g)
                          @ '' for Process Group with name '' @ getBackendName g @ ''.'')))
   \<and> (backendTypeToBackend_m g (getBackendType g) = Some a' \<longrightarrow> getDefaultBackend g = Inr a')
   \<and> (backendTypeToBackend_m (group w) bt = None \<and> (\<forall>c \<in> set cs. \<not> attaches bt c) \<longrightarrow>
        getBackend_backendType bt (group (run cs w))
          = Inl (Error (''Could not find backend type '' @ BackendType_str bt @ ''.'')))"
proof (intro conjI impI)
  assume "backendTypeToBackend_m (group w) bt = None \<and> (\<forall>c \<in> set cs. \<not> attaches bt c)"
  then have "backendTypeToBackend_m (group (run cs w)) bt = None"
    by (simp add: run_not_attached)
  then show "getBackend_backendType bt (group (run cs w))
          = Inl (Error (''Could not find backend type '' @ BackendType_str bt @ ''.''))"
    by (simp add: getBackend_backendType_def)
qed (simp_all add: getBackend_backendType_def getDefaultBackend_def getBackendType_def)

theorem getBackend_found_or_error_witness:
  "getBackend_backendType NCCL (group (example_world_cpu_gloo ''nccl'' NCCL))
     = Inl (Error ''Could not find backend type 2.'')
   \<and> getBackend_backendType GLOO (group (example_world_cpu_gloo ''gloo'' GLOO)) = Inr 0
   \<and> getDefaultBackend (group (example_world_cpu_gloo ''nccl'' NCCL))
     = Inl (Error ''Could not find the default backend type 2 for Process Group with name nccl.'')
   \<and> getDefaultBackend (group (example_world_cpu_gloo ''gloo'' GLOO)) = Inr 0
   \<and> getBackend_backendType NCCL
       (group (run [SetBackend CPU GLOO (Some 0), SetBackend CUDA NCCL None,
                    SetBoundDeviceId None, SetBackend CUDA GLOO (Some 0)]
                 (example_world ''nccl'' NCCL)))
     = Inl (Error ''Could not find backend type 2.'')"
  using getBackend_found_or_error [of "group (example_world_cpu_gloo ''nccl'' NCCL)" NCCL 0 0
      "example_world ''nccl'' NCCL"
      "[SetBackend CPU GLOO (Some 0), SetBackend CUDA NCCL None,
        SetBoundDeviceId None, SetBackend CUDA GLOO (Some 0)]"]
    getBackend_found_or_error [of "group (example_world_cpu_gloo ''gloo'' GLOO)" GLOO 0 0
      "example_world ''gloo'' GLOO" "[]"]
  by (simp add: getBackendType_def getBackendName_def example_world_cpu_gloo_def
      example_world_def ProcessGroup_new_def example_backend_def setBackend_def Let_def
      Backend_setBoundDeviceId_def)

section \<open>The buffer of a barrier\<close>

text \<open>
  C2, as claimed, fails: a group whose default backend type is NCCL and whose only
  registered backend serves the CPU device type, called with options that name no
  device, passes a CUDA buffer to the dispatched operator.
\<close>

theorem barrier_cpu_only_nccl_counterexample:
  "deviceTypes_m (group (example_world_cpu_gloo ''nccl'' NCCL)) = {CPU}
   \<and> device example_barrier_options = None
   \<and> tensor_device (barrier buffer_passed example_barrier_options (example_world_cpu_gloo ''nccl'' NCCL))
       = \<lparr>device_type = CUDA, device_index = - 1\<rparr>
   \<and> device_type (tensor_device
        (barrier buffer_passed example_barrier_options (example_world_cpu_gloo ''nccl'' NCCL)))
       \<noteq> CPU"
  by (simp add: example_world_cpu_gloo_def example_world_def ProcessGroup_new_def
      example_backend_def setBackend_def Let_def Backend_setBoundDeviceId_def
      example_barrier_options_def barrier_def barrier_tensor_def buffer_passed_def
      at_empty_def Device_of_def)

text \<open>
  C2, amended. For every group whose default backend type is not NCCL (whichever
  backends are registered, so also when the only one serves the CPU device type),
  \<open>barrier\<close> called with options that name no device passes the dispatched operator a
  one-byte buffer on the CPU device, and returns what the operator returns.
\<close>

theorem barrier_default_cpu_buffer:
  assumes "device opts = None" and "getBackendType (group w) \<noteq> NCCL"
  shows "barrier op opts w =
     op \<lparr>tensor_sizes = [1], tensor_device = \<lparr>device_type = CPU, device_index = - 1\<rparr>,
         tensor_dtype = Byte\<rparr>
        w (device_ids opts) (barrier_timeout opts)"
  using assms
  by (simp add: barrier_def barrier_tensor_def getBackendType_def at_empty_def Device_of_def)

theorem barrier_default_cpu_buffer_witness:
  "device example_barrier_options = None
   \<and> getBackendType (group (example_world_cpu_gloo ''mpi'' MPI)) \<noteq> NCCL
   \<and> deviceTypes_m (group (example_world_cpu_gloo ''mpi'' MPI)) = {CPU}
   \<and> barrier buffer_passed example_barrier_options (example_world_cpu_gloo ''mpi'' MPI)
       = \<lparr>tensor_sizes = [1], tensor_device = \<lparr>device_type = CPU, device_index = - 1\<rparr>,
          tensor_dtype = Byte\<rparr>"
proof -
  have o: "device example_barrier_options = None"
    by (simp add: example_barrier_options_def)
  have t: "getBackendType (group (example_world_cpu_gloo ''mpi'' MPI)) \<noteq> NCCL"
    by (simp add: getBackendType_def example_world_cpu_gloo_def setBackend_fixed_members
        example_world_def ProcessGroup_new_def)
  have s: "deviceTypes_m (group (example_world_cpu_gloo ''mpi'' MPI)) = {CPU}"
    by (simp add: example_world_cpu_gloo_def setBackend_deviceTypes example_world_def
        ProcessGroup_new_def)
  show ?thesis
    using o t s barrier_default_cpu_buffer [OF o t, of buffer_passed]
    by (simp add: buffer_passed_def)
qed

end
